theory Spec2Isabelle
  imports Main "HOL-Library.Word" "HOL-Library.Sublist" "HOL-Library.AList"
begin

section \<open>Python text and bytes\<close>

text \<open>
  The service is one Python module, \<^verbatim>\<open>servers/url-access/main.py\<close>. A Python \<^verbatim>\<open>str\<close> is a
  sequence of Unicode code points and a \<^verbatim>\<open>bytes\<close> object a sequence of octets. String
  literals of the source are written with \<open>ustr\<close>.
\<close>

type_synonym codepoint = nat
type_synonym pystr = "codepoint list"
type_synonym byte = "8 word"
type_synonym pybytes = "byte list"

definition ustr :: "string \<Rightarrow> pystr" where
  "ustr s = map of_char s"

text \<open>
  \<^verbatim>\<open>str.isspace\<close> per character: the set \<^verbatim>\<open>str.strip()\<close> and \<^verbatim>\<open>str.split()\<close> work with.
\<close>

definition is_whitespace :: "codepoint \<Rightarrow> bool" where
  "is_whitespace c =
     ((9 \<le> c \<and> c \<le> 13) \<or> (28 \<le> c \<and> c \<le> 32) \<or> c = 133 \<or> c = 160 \<or> c = 5760 \<or>
      (8192 \<le> c \<and> c \<le> 8202) \<or> c = 8232 \<or> c = 8233 \<or> c = 8239 \<or> c = 8287 \<or> c = 12288)"

text \<open>The line boundaries of \<^verbatim>\<open>str.splitlines()\<close>.\<close>

definition is_linebreak :: "codepoint \<Rightarrow> bool" where
  "is_linebreak c =
     ((10 \<le> c \<and> c \<le> 13) \<or> (28 \<le> c \<and> c \<le> 30) \<or> c = 133 \<or> c = 8232 \<or> c = 8233)"

text \<open>\<^verbatim>\<open>s.strip()\<close>: leading and trailing whitespace removed.\<close>

definition py_strip :: "pystr \<Rightarrow> pystr" where
  "py_strip s = rev (dropWhile is_whitespace (rev (dropWhile is_whitespace s)))"

text \<open>
  \<^verbatim>\<open>s.split()\<close>: the maximal runs of non-whitespace characters, in order. The first
  argument is the word being read.
\<close>

fun split_ws_from :: "pystr \<Rightarrow> pystr \<Rightarrow> pystr list" where
  "split_ws_from w [] = (if w = [] then [] else [w])"
| "split_ws_from w (c # cs) =
     (if is_whitespace c
      then (if w = [] then split_ws_from [] cs else w # split_ws_from [] cs)
      else split_ws_from (w @ [c]) cs)"

definition py_split_ws :: "pystr \<Rightarrow> pystr list" where
  "py_split_ws s = split_ws_from [] s"

text \<open>
  \<^verbatim>\<open>s.splitlines()\<close>: the lines without their line ends; \<^verbatim>\<open>\r\n\<close> is one line end, and
  a final line end opens no further line. The first argument is the line being read.
\<close>

fun splitlines_from :: "pystr \<Rightarrow> pystr \<Rightarrow> pystr list" where
  "splitlines_from l [] = (if l = [] then [] else [l])"
| "splitlines_from l (c # cs) =
     (if is_linebreak c then
        (case cs of
           [] \<Rightarrow> [l]
         | d # ds \<Rightarrow>
             if c = 13 \<and> d = 10 then l # splitlines_from [] ds
             else l # splitlines_from [] cs)
      else splitlines_from (l @ [c]) cs)"

definition py_splitlines :: "pystr \<Rightarrow> pystr list" where
  "py_splitlines s = splitlines_from [] s"

text \<open>
  \<^verbatim>\<open>s.split(sep)\<close> for a non-empty separator: the text between the occurrences of
  \<open>sep\<close>, found from left to right without overlap. The second argument is the piece
  being read.
\<close>

function split_from :: "pystr \<Rightarrow> pystr \<Rightarrow> pystr \<Rightarrow> pystr list" where
  "split_from sep p [] = [p]"
| "split_from sep p (c # cs) =
     (if sep \<noteq> [] \<and> prefix sep (c # cs)
      then p # split_from sep [] (drop (length sep) (c # cs))
      else split_from sep (p @ [c]) cs)"
  by pat_completeness auto
termination
  by (relation "measure (\<lambda>(sep, p, s). length s)") auto

definition py_split :: "pystr \<Rightarrow> pystr \<Rightarrow> pystr list" where
  "py_split sep s = split_from sep [] s"

text \<open>\<^verbatim>\<open>sep.join(xs)\<close>.\<close>

fun py_join :: "pystr \<Rightarrow> pystr list \<Rightarrow> pystr" where
  "py_join sep [] = []"
| "py_join sep [x] = x"
| "py_join sep (x # y # ys) = x @ sep @ py_join sep (y # ys)"

text \<open>\<^verbatim>\<open>sub in s\<close>: \<open>sub\<close> occurs in \<open>s\<close> as a contiguous substring.\<close>

fun py_contains :: "pystr \<Rightarrow> pystr \<Rightarrow> bool" where
  "py_contains sub [] = (sub = [])"
| "py_contains sub (c # cs) = (prefix sub (c # cs) \<or> py_contains sub cs)"

text \<open>
  \<^verbatim>\<open>s.replace(old, new)\<close> for a non-empty \<open>old\<close>: every occurrence, found from left to
  right without overlap, is replaced.
\<close>

function py_replace :: "pystr \<Rightarrow> pystr \<Rightarrow> pystr \<Rightarrow> pystr" where
  "py_replace old new [] = []"
| "py_replace old new (c # cs) =
     (if old \<noteq> [] \<and> prefix old (c # cs)
      then new @ py_replace old new (drop (length old) (c # cs))
      else c # py_replace old new cs)"
  by pat_completeness auto
termination
  by (relation "measure (\<lambda>(old, new, s). length s)") auto

text \<open>
  \<^verbatim>\<open>s.lower()\<close> on the Latin-1 range, in which the HTTP client decodes header values:
  the letters A to Z and the accented capitals other than the multiplication sign.
\<close>

definition lower_char :: "codepoint \<Rightarrow> codepoint" where
  "lower_char c =
     (if (65 \<le> c \<and> c \<le> 90) \<or> (192 \<le> c \<and> c \<le> 222 \<and> c \<noteq> 215) then c + 32 else c)"

definition py_lower :: "pystr \<Rightarrow> pystr" where
  "py_lower s = map lower_char s"

text \<open>\<^verbatim>\<open>str(n)\<close> for an integer, as the f-strings of the source format a status code.\<close>

fun str_nat :: "nat \<Rightarrow> pystr" where
  "str_nat n = (if n < 10 then [48 + n] else str_nat (n div 10) @ [48 + n mod 10])"

declare str_nat.simps [simp del]

definition str_int :: "int \<Rightarrow> pystr" where
  "str_int i = (if i < 0 then 45 # str_nat (nat (- i)) else str_nat (nat i))"

subsection \<open>Decoding bytes\<close>

text \<open>
  \<^verbatim>\<open>content.decode('utf-8')\<close> is strict: it fails on the first ill-formed sequence
  (a stray continuation byte, an overlong form, a surrogate, a value above U+10FFFF, a
  truncated sequence). \<open>None\<close> stands for \<^verbatim>\<open>UnicodeDecodeError\<close>.
\<close>

definition is_cont :: "nat \<Rightarrow> bool" where
  "is_cont b = (128 \<le> b \<and> b \<le> 191)"

fun decode_utf8_from :: "nat list \<Rightarrow> pystr option" where
  "decode_utf8_from [] = Some []"
| "decode_utf8_from (b0 # rest) =
     (if b0 < 128 then map_option (Cons b0) (decode_utf8_from rest)
      else if 194 \<le> b0 \<and> b0 \<le> 223 then
        (case rest of
           b1 # r \<Rightarrow>
             if is_cont b1
             then map_option (Cons ((b0 - 192) * 64 + (b1 - 128))) (decode_utf8_from r)
             else None
         | _ \<Rightarrow> None)
      else if 224 \<le> b0 \<and> b0 \<le> 239 then
        (case rest of
           b1 # b2 # r \<Rightarrow>
             if (if b0 = 224 then 160 else 128) \<le> b1 \<and> b1 \<le> (if b0 = 237 then 159 else 191)
                \<and> is_cont b2
             then map_option (Cons ((b0 - 224) * 4096 + (b1 - 128) * 64 + (b2 - 128)))
                    (decode_utf8_from r)
             else None
         | _ \<Rightarrow> None)
      else if 240 \<le> b0 \<and> b0 \<le> 244 then
        (case rest of
           b1 # b2 # b3 # r \<Rightarrow>
             if (if b0 = 240 then 144 else 128) \<le> b1 \<and> b1 \<le> (if b0 = 244 then 143 else 191)
                \<and> is_cont b2 \<and> is_cont b3
             then map_option
                    (Cons ((b0 - 240) * 262144 + (b1 - 128) * 4096 + (b2 - 128) * 64 + (b3 - 128)))
                    (decode_utf8_from r)
             else None
         | _ \<Rightarrow> None)
      else None)"

definition decode_utf8 :: "pybytes \<Rightarrow> pystr option" where
  "decode_utf8 bs = decode_utf8_from (map unat bs)"

text \<open>
  \<^verbatim>\<open>content.decode('latin-1')\<close>: every byte is the code point of the same value.
\<close>

definition decode_latin1 :: "pybytes \<Rightarrow> pystr option" where
  "decode_latin1 bs = Some (map unat bs)"

section \<open>The parsed document\<close>

text \<open>
  \<^verbatim>\<open>BeautifulSoup(html_content, 'html.parser')\<close> yields a tree: text nodes
  (\<^verbatim>\<open>NavigableString\<close>), comments, and tags with a name, an attribute dictionary and
  their contents. The document object itself is a tag (named \<^verbatim>\<open>[document]\<close>) whose
  contents are the top-level nodes. The attribute dictionary is an association list read
  with \<open>map_of\<close>.
\<close>

datatype node =
    NavigableString pystr
  | Comment pystr
  | Tag pystr "(pystr \<times> pystr) list" "node list"

text \<open>\<^verbatim>\<open>tag.descendants\<close>: every node below the tag, in document order.\<close>

fun descendants :: "node \<Rightarrow> node list" where
  "descendants (Tag n a cs) = concat (map (\<lambda>c. c # descendants c) cs)"
| "descendants (NavigableString s) = []"
| "descendants (Comment s) = []"

fun is_tag :: "pystr \<Rightarrow> node \<Rightarrow> bool" where
  "is_tag nm (Tag n a cs) = (n = nm)"
| "is_tag nm (NavigableString s) = False"
| "is_tag nm (Comment s) = False"

text \<open>\<^verbatim>\<open>tag.get(key)\<close> and \<^verbatim>\<open>tag.get(key, default)\<close>.\<close>

fun attr_get :: "node \<Rightarrow> pystr \<Rightarrow> pystr option" where
  "attr_get (Tag n a cs) key = map_of a key"
| "attr_get (NavigableString s) key = None"
| "attr_get (Comment s) key = None"

definition attr_get_default :: "node \<Rightarrow> pystr \<Rightarrow> pystr \<Rightarrow> pystr" where
  "attr_get_default tag key dflt = (case attr_get tag key of Some v \<Rightarrow> v | None \<Rightarrow> dflt)"

text \<open>
  \<^verbatim>\<open>soup.find_all(...)\<close> lists the descendants that match, in document order;
  \<^verbatim>\<open>soup.find(...)\<close> is the first of them, or \<^verbatim>\<open>None\<close>.
\<close>

definition bs_find_all :: "(node \<Rightarrow> bool) \<Rightarrow> node \<Rightarrow> node list" where
  "bs_find_all p soup = filter p (descendants soup)"

definition bs_find :: "(node \<Rightarrow> bool) \<Rightarrow> node \<Rightarrow> node option" where
  "bs_find p soup = List.find p (descendants soup)"

text \<open>
  \<^verbatim>\<open>tag.get_text()\<close>: the text nodes below the tag, concatenated in document order;
  comments are not text.
\<close>

fun navigable_text :: "node \<Rightarrow> pystr option" where
  "navigable_text (NavigableString s) = Some s"
| "navigable_text (Comment s) = None"
| "navigable_text (Tag n a cs) = None"

definition all_strings :: "node \<Rightarrow> pystr list" where
  "all_strings t = List.map_filter navigable_text (descendants t)"

definition get_text :: "node \<Rightarrow> pystr" where
  "get_text t = concat (all_strings t)"

text \<open>
  Lines 57 to 59: \<^verbatim>\<open>for script in soup(["script", "style"]): script.decompose()\<close>.
  The call lists every matching descendant first; decomposing each takes it, with all
  below it, out of its parent. What is left is the tree without any matching tag.
\<close>

fun decompose_all :: "(node \<Rightarrow> bool) \<Rightarrow> node \<Rightarrow> node" where
  "decompose_all p (Tag n a cs) = Tag n a (map (decompose_all p) (filter (\<lambda>c. \<not> p c) cs))"
| "decompose_all p (NavigableString s) = NavigableString s"
| "decompose_all p (Comment s) = Comment s"

definition script_or_style :: "node \<Rightarrow> bool" where
  "script_or_style x = (is_tag (ustr ''script'') x \<or> is_tag (ustr ''style'') x)"

section \<open>The extraction routine\<close>

subsection \<open>Title and metadata (lines 61 to 86)\<close>

datatype meta_value = MetaStr pystr | MetaList "pystr list"

text \<open>
  The metadata dictionary keeps insertion order; \<open>AList.update\<close> replaces the value of a
  key that is present and appends a new key, as item assignment does.
\<close>

type_synonym metadata_dict = "(pystr \<times> meta_value) list"

definition extract_title :: "node \<Rightarrow> pystr option" where
  "extract_title soup =
     (case bs_find (is_tag (ustr ''title'')) soup of
        Some title_tag \<Rightarrow> Some (py_strip (get_text title_tag))
      | None \<Rightarrow> None)"

text \<open>\<^verbatim>\<open>soup.find('meta', attrs={'name': v})\<close> matches on the exact attribute value.\<close>

definition meta_named :: "pystr \<Rightarrow> node \<Rightarrow> bool" where
  "meta_named v x = (is_tag (ustr ''meta'') x \<and> attr_get x (ustr ''name'') = Some v)"

definition set_from_meta :: "pystr \<Rightarrow> node \<Rightarrow> metadata_dict \<Rightarrow> metadata_dict" where
  "set_from_meta key soup md =
     (case bs_find (meta_named key) soup of
        Some tag \<Rightarrow> AList.update key (MetaStr (attr_get_default tag (ustr ''content'') [])) md
      | None \<Rightarrow> md)"

text \<open>
  \<^verbatim>\<open>soup.find_all('meta', property=re.compile(r'^og:'))\<close>: the pattern is searched in
  the attribute's value, and \<^verbatim>\<open>^\<close> anchors it at the start; a tag without the attribute
  does not match.
\<close>

definition og_meta :: "node \<Rightarrow> bool" where
  "og_meta x =
     (is_tag (ustr ''meta'') x \<and>
      (case attr_get x (ustr ''property'') of
         Some v \<Rightarrow> prefix (ustr ''og:'') v
       | None \<Rightarrow> False))"

text \<open>
  The body of the loop of lines 82 to 86: the key and value a tag contributes, if any.
\<close>

definition og_entry :: "node \<Rightarrow> (pystr \<times> pystr) option" where
  "og_entry tag =
     (let property_name = py_replace (ustr ''og:'') [] (attr_get_default tag (ustr ''property'') []);
          content_value = attr_get_default tag (ustr ''content'') []
      in if property_name \<noteq> [] \<and> content_value \<noteq> []
         then Some (ustr ''og_'' @ property_name, content_value)
         else None)"

definition og_step :: "metadata_dict \<Rightarrow> node \<Rightarrow> metadata_dict" where
  "og_step md tag =
     (case og_entry tag of
        Some (k, v) \<Rightarrow> AList.update k (MetaStr v) md
      | None \<Rightarrow> md)"

definition extract_metadata :: "node \<Rightarrow> metadata_dict" where
  "extract_metadata soup =
     foldl og_step
       (set_from_meta (ustr ''keywords'') soup (set_from_meta (ustr ''description'') soup []))
       (bs_find_all og_meta soup)"

subsection \<open>The main content region (lines 88 to 97)\<close>

text \<open>
  \<^verbatim>\<open>soup.find('div', class_=re.compile(r'content|main|article'))\<close>. The tree builder
  splits a class attribute at whitespace into its class names; the pattern is searched in
  each name, and then in the names joined by single spaces.
\<close>

definition class_pattern :: "pystr \<Rightarrow> bool" where
  "class_pattern s =
     (py_contains (ustr ''content'') s \<or> py_contains (ustr ''main'') s \<or>
      py_contains (ustr ''article'') s)"

definition content_div :: "node \<Rightarrow> bool" where
  "content_div x =
     (is_tag (ustr ''div'') x \<and>
      (case attr_get x (ustr ''class'') of
         Some v \<Rightarrow>
           list_ex class_pattern (py_split_ws v) \<or>
           class_pattern (py_join (ustr '' '') (py_split_ws v))
       | None \<Rightarrow> False))"

text \<open>
  \<^verbatim>\<open>x or y\<close> on the results of \<^verbatim>\<open>find\<close>: a tag is always true, \<^verbatim>\<open>None\<close> is false.
\<close>

definition py_or :: "node option \<Rightarrow> node option \<Rightarrow> node option" where
  "py_or x y = (case x of Some t \<Rightarrow> Some t | None \<Rightarrow> y)"

definition select_main_content :: "node \<Rightarrow> node" where
  "select_main_content soup =
     (let main_content =
            py_or (bs_find (is_tag (ustr ''main'')) soup)
              (py_or (bs_find (is_tag (ustr ''article'')) soup) (bs_find content_div soup))
      in case main_content of
           Some region \<Rightarrow> region
         | None \<Rightarrow>
             (case bs_find (is_tag (ustr ''body'')) soup of
                Some body \<Rightarrow> body
              | None \<Rightarrow> soup))"

subsection \<open>Whitespace clean-up (lines 99 to 102)\<close>

definition normalize_whitespace :: "pystr \<Rightarrow> pystr" where
  "normalize_whitespace text_in =
     (let lines = map py_strip (py_splitlines text_in);
          chunks = map py_strip (concat (map (py_split (ustr ''  '')) lines))
      in py_join (ustr '' '') (filter (\<lambda>chunk. chunk \<noteq> []) chunks))"

subsection \<open>The routine\<close>

text \<open>
  \<^verbatim>\<open>extract_text_from_html\<close> from the parsed tree on: text, title, metadata.
\<close>

definition extract_text_from_soup :: "node \<Rightarrow> pystr \<times> pystr option \<times> metadata_dict" where
  "extract_text_from_soup parsed =
     (let soup = decompose_all script_or_style parsed
      in (normalize_whitespace (get_text (select_main_content soup)),
          extract_title soup,
          extract_metadata soup))"

section \<open>Exceptions and the outside world\<close>

text \<open>
  The exceptions the handlers can meet, by class. \<^verbatim>\<open>ConnectTimeout\<close> derives from both
  \<^verbatim>\<open>ConnectionError\<close> and \<^verbatim>\<open>Timeout\<close>; \<open>Timeout\<close> stands for the class and its other
  subclasses (\<^verbatim>\<open>ReadTimeout\<close>), \<open>ConnectionError\<close> likewise (\<^verbatim>\<open>SSLError\<close>,
  \<^verbatim>\<open>ProxyError\<close>), \<open>RequestException\<close> for every other exception of the HTTP client
  library and \<open>OtherException\<close> for every other subclass of \<^verbatim>\<open>Exception\<close>.
  \<^verbatim>\<open>HTTPError\<close> is raised by \<^verbatim>\<open>raise_for_status\<close>, which attaches the response; its
  first field is that response's status code. \<open>HTTPException\<close> is the web framework's,
  with its status code and detail. The last field is the message.
\<close>

datatype exc =
    Timeout pystr
  | ConnectTimeout pystr
  | ConnectionError pystr
  | HTTPError int pystr
  | RequestException pystr
  | HTTPException int pystr
  | JSONDecodeError pystr
  | ValueError pystr
  | OtherException pystr

text \<open>What \<^verbatim>\<open>except C\<close> tests: the exception is an instance of \<open>C\<close>.\<close>

fun is_Timeout :: "exc \<Rightarrow> bool" where
  "is_Timeout (Timeout m) = True"
| "is_Timeout (ConnectTimeout m) = True"
| "is_Timeout e = False"

fun is_ConnectionError :: "exc \<Rightarrow> bool" where
  "is_ConnectionError (ConnectionError m) = True"
| "is_ConnectionError (ConnectTimeout m) = True"
| "is_ConnectionError e = False"

fun is_HTTPError :: "exc \<Rightarrow> bool" where
  "is_HTTPError (HTTPError s m) = True"
| "is_HTTPError e = False"

fun is_RequestException :: "exc \<Rightarrow> bool" where
  "is_RequestException (Timeout m) = True"
| "is_RequestException (ConnectTimeout m) = True"
| "is_RequestException (ConnectionError m) = True"
| "is_RequestException (HTTPError s m) = True"
| "is_RequestException (RequestException m) = True"
| "is_RequestException e = False"

fun is_JSONDecodeError :: "exc \<Rightarrow> bool" where
  "is_JSONDecodeError (JSONDecodeError m) = True"
| "is_JSONDecodeError e = False"

text \<open>
  \<^verbatim>\<open>str(e)\<close>: the message; for the web framework's exception, status code and detail.
\<close>

fun str_exc :: "exc \<Rightarrow> pystr" where
  "str_exc (Timeout m) = m"
| "str_exc (ConnectTimeout m) = m"
| "str_exc (ConnectionError m) = m"
| "str_exc (HTTPError s m) = m"
| "str_exc (RequestException m) = m"
| "str_exc (HTTPException s d) = str_int s @ ustr '': '' @ d"
| "str_exc (JSONDecodeError m) = m"
| "str_exc (ValueError m) = m"
| "str_exc (OtherException m) = m"

text \<open>\<^verbatim>\<open>e.response.status_code\<close> of an \<^verbatim>\<open>HTTPError\<close>.\<close>

fun response_status_code :: "exc \<Rightarrow> int" where
  "response_status_code (HTTPError s m) = s"
| "response_status_code e = 0"

text \<open>
  What \<^verbatim>\<open>response.iter_content(chunk_size=8192)\<close> yields: chunks of the body, and
  possibly an exception of the transport in place of the next chunk.
\<close>

datatype stream_item = Chunk pybytes | StreamRaises exc

text \<open>
  The response of the HTTP client, as far as the handlers read it: status line, final
  URL, the two headers looked up (\<open>None\<close> when absent) and the body stream.
\<close>

record http_response =
  resp_status_code :: int
  resp_reason :: pystr
  resp_url :: pystr
  resp_content_type :: "pystr option"
  resp_content_length :: "pystr option"
  resp_body :: "stream_item list"

text \<open>A value \<^verbatim>\<open>json.loads\<close> returns; an object is a dictionary, its keys in order.\<close>

datatype json =
    JNull
  | JBool bool
  | JInt int
  | JFloat pystr
  | JString pystr
  | JArray "json list"
  | JObject "(pystr \<times> json) list"

text \<open>
  The network and the libraries are parameters of the model: the two calls of the HTTP
  client (URL, timeout, and for \<^verbatim>\<open>get\<close> whether redirects are followed; the headers
  the handlers send are fixed), the HTML tree builder, and the JSON parser and printer
  (\<^verbatim>\<open>json.dumps(json_data, indent=2)\<close>). Every theorem holds whatever they do.
\<close>

record world =
  requests_get :: "pystr \<Rightarrow> int \<Rightarrow> bool \<Rightarrow> exc + http_response"
  requests_head :: "pystr \<Rightarrow> int \<Rightarrow> exc + http_response"
  html_parser :: "pystr \<Rightarrow> node"
  json_loads :: "pystr \<Rightarrow> exc + json"
  json_dumps :: "json \<Rightarrow> pystr"

section \<open>The response models (lines 32 to 47)\<close>

record URLContentResponse =
  url :: pystr
  title :: "pystr option"
  content :: pystr
  content_type :: pystr
  status_code :: int
  word_count :: int
  metadata :: metadata_dict

text \<open>
  The fields of \<^verbatim>\<open>URLAnalysisResponse\<close>; \<open>analyzed_url\<close>, \<open>analyzed_content_type\<close> and
  \<open>analyzed_status_code\<close> are its \<^verbatim>\<open>url\<close>, \<^verbatim>\<open>content_type\<close> and \<^verbatim>\<open>status_code\<close>.
\<close>

record URLAnalysisResponse =
  analyzed_url :: pystr
  is_accessible :: bool
  analyzed_content_type :: "pystr option"
  content_length :: "int option"
  analyzed_status_code :: "int option"
  error_message :: "pystr option"

section \<open>The fetch handler (lines 114 to 203)\<close>

definition extract_text_from_html ::
  "world \<Rightarrow> pystr \<Rightarrow> pystr \<Rightarrow> pystr \<times> pystr option \<times> metadata_dict" where
  "extract_text_from_html w html_content url_str =
     extract_text_from_soup (html_parser w html_content)"

text \<open>
  \<^verbatim>\<open>response.raise_for_status()\<close>: a status from 400 to 599 raises \<^verbatim>\<open>HTTPError\<close>.
\<close>

definition raise_for_status :: "http_response \<Rightarrow> exc + unit" where
  "raise_for_status r =
     (let s = resp_status_code r in
      if 400 \<le> s \<and> s < 500 then
        Inl (HTTPError s (str_int s @ ustr '' Client Error: '' @ resp_reason r @
                          ustr '' for url: '' @ resp_url r))
      else if 500 \<le> s \<and> s < 600 then
        Inl (HTTPError s (str_int s @ ustr '' Server Error: '' @ resp_reason r @
                          ustr '' for url: '' @ resp_url r))
      else Inr ())"

definition max_size :: nat where
  "max_size = 10 * 1024 * 1024"

text \<open>
  Lines 151 to 155: the loop over the chunks. The first argument is \<^verbatim>\<open>content\<close>, the
  bytes accumulated so far.
\<close>

fun read_content :: "pybytes \<Rightarrow> stream_item list \<Rightarrow> exc + pybytes" where
  "read_content acc [] = Inr acc"
| "read_content acc (StreamRaises e # rest) = Inl e"
| "read_content acc (Chunk chunk # rest) =
     (if length (acc @ chunk) > max_size
      then Inl (HTTPException 413 (ustr ''Content too large (max 10MB)''))
      else read_content (acc @ chunk) rest)"

text \<open>Lines 158 to 164.\<close>

definition decode_content :: "pybytes \<Rightarrow> exc + pystr" where
  "decode_content bs =
     (case decode_utf8 bs of
        Some text_content \<Rightarrow> Inr text_content
      | None \<Rightarrow>
          (case decode_latin1 bs of
             Some text_content \<Rightarrow> Inr text_content
           | None \<Rightarrow> Inl (HTTPException 422 (ustr ''Unable to decode content as text''))))"

text \<open>
  \<^verbatim>\<open>list(json_data.keys()) if isinstance(json_data, dict) else []\<close>.
\<close>

fun json_keys :: "json \<Rightarrow> pystr list" where
  "json_keys (JObject items) = map fst items"
| "json_keys j = []"

text \<open>
  Lines 166 to 179: the dispatch on the content type; text, title and metadata after it.
\<close>

definition process_content ::
  "world \<Rightarrow> pystr \<Rightarrow> bool \<Rightarrow> pystr \<Rightarrow> pystr \<Rightarrow> exc + (pystr \<times> pystr option \<times> metadata_dict)" where
  "process_content w ctype extract_text text_content url_str =
     (if py_contains (ustr ''text/html'') ctype \<and> extract_text then
        Inr (extract_text_from_html w text_content url_str)
      else if py_contains (ustr ''application/json'') ctype then
        (case json_loads w text_content of
           Inr json_data \<Rightarrow>
             Inr (json_dumps w json_data, None,
                  AList.update (ustr ''json_keys'') (MetaList (json_keys json_data)) [])
         | Inl e \<Rightarrow> if is_JSONDecodeError e then Inr (text_content, None, []) else Inl e)
      else Inr (text_content, None, []))"

text \<open>The body of the \<^verbatim>\<open>try\<close> statement, lines 137 to 192.\<close>

definition fetch_try :: "world \<Rightarrow> pystr \<Rightarrow> bool \<Rightarrow> bool \<Rightarrow> int \<Rightarrow> exc + URLContentResponse" where
  "fetch_try w url_str extract_text follow_redirects timeout =
     (case requests_get w url_str timeout follow_redirects of
        Inl e \<Rightarrow> Inl e
      | Inr response \<Rightarrow>
     (case raise_for_status response of
        Inl e \<Rightarrow> Inl e
      | Inr u \<Rightarrow>
     (let ctype = py_lower (case resp_content_type response of Some v \<Rightarrow> v | None \<Rightarrow> []) in
      case read_content [] (resp_body response) of
        Inl e \<Rightarrow> Inl e
      | Inr body \<Rightarrow>
     (case decode_content body of
        Inl e \<Rightarrow> Inl e
      | Inr decoded \<Rightarrow>
     (case process_content w ctype extract_text decoded url_str of
        Inl e \<Rightarrow> Inl e
      | Inr (text_content, page_title, md) \<Rightarrow>
          Inr \<lparr> url = url_str,
                title = page_title,
                content = text_content,
                content_type = ctype,
                status_code = resp_status_code response,
                word_count = int (length (py_split_ws text_content)),
                metadata = md \<rparr>)))))"

text \<open>
  The \<^verbatim>\<open>except\<close> clauses, lines 194 to 203, in their order: the exception the handler
  raises for the one caught.
\<close>

definition fetch_except :: "exc \<Rightarrow> exc" where
  "fetch_except e =
     (if is_Timeout e then HTTPException 408 (ustr ''Request timeout'')
      else if is_ConnectionError e then HTTPException 503 (ustr ''Unable to connect to the URL'')
      else if is_HTTPError e then
        HTTPException (response_status_code e) (ustr ''HTTP error: '' @ str_exc e)
      else if is_RequestException e then
        HTTPException 500 (ustr ''Request error: '' @ str_exc e)
      else HTTPException 500 (ustr ''An internal error occurred: '' @ str_exc e))"

text \<open>
  The handler: \<open>Inr\<close> is the response returned, \<open>Inl\<close> the exception that leaves the
  handler, which the framework answers with that exception's status code.
\<close>

definition fetch_url_content ::
  "world \<Rightarrow> pystr \<Rightarrow> bool \<Rightarrow> bool \<Rightarrow> int \<Rightarrow> exc + URLContentResponse" where
  "fetch_url_content w url_str extract_text follow_redirects timeout =
     (case fetch_try w url_str extract_text follow_redirects timeout of
        Inr r \<Rightarrow> Inr r
      | Inl e \<Rightarrow> Inl (fetch_except e))"

section \<open>The analyze handler (lines 205 to 271)\<close>

text \<open>
  \<^verbatim>\<open>str.isdigit\<close> on the Latin-1 range: the ten digits and the superscripts one, two
  and three. \<^verbatim>\<open>int\<close> accepts only the ten digits among them and raises
  \<^verbatim>\<open>ValueError\<close> otherwise. (The interpreter's limit on the number of digits is a
  run-time setting and is left out.)
\<close>

definition is_ascii_digit :: "codepoint \<Rightarrow> bool" where
  "is_ascii_digit c = (48 \<le> c \<and> c \<le> 57)"

definition is_digit :: "codepoint \<Rightarrow> bool" where
  "is_digit c = (is_ascii_digit c \<or> c = 178 \<or> c = 179 \<or> c = 185)"

definition py_isdigit :: "pystr \<Rightarrow> bool" where
  "py_isdigit s = (s \<noteq> [] \<and> list_all is_digit s)"

definition py_int :: "pystr \<Rightarrow> exc + int" where
  "py_int s =
     (if list_all is_ascii_digit s
      then Inr (int (foldl (\<lambda>n c. 10 * n + (c - 48)) 0 s))
      else Inl (ValueError (ustr ''invalid literal for int() with base 10: '' @ [39] @ s @ [39])))"

text \<open>
  Line 230:
  \<^verbatim>\<open>int(content_length) if content_length and content_length.isdigit() else None\<close>.
\<close>

definition parse_content_length :: "pystr option \<Rightarrow> exc + int option" where
  "parse_content_length h =
     (case h of
        None \<Rightarrow> Inr None
      | Some v \<Rightarrow>
          if v \<noteq> [] \<and> py_isdigit v
          then (case py_int v of Inl e \<Rightarrow> Inl e | Inr n \<Rightarrow> Inr (Some n))
          else Inr None)"

text \<open>The body of the \<^verbatim>\<open>try\<close> statement, lines 221 to 239.\<close>

definition analyze_try :: "world \<Rightarrow> pystr \<Rightarrow> int \<Rightarrow> exc + URLAnalysisResponse" where
  "analyze_try w url_str timeout =
     (case requests_head w url_str timeout of
        Inl e \<Rightarrow> Inl e
      | Inr response \<Rightarrow>
     (let ctype = (case resp_content_type response of Some v \<Rightarrow> v | None \<Rightarrow> []) in
      case parse_content_length (resp_content_length response) of
        Inl e \<Rightarrow> Inl e
      | Inr clen \<Rightarrow>
          Inr \<lparr> analyzed_url = url_str,
                is_accessible = True,
                analyzed_content_type = Some ctype,
                content_length = clen,
                analyzed_status_code = Some (resp_status_code response),
                error_message = None \<rparr>))"

text \<open>
  The \<^verbatim>\<open>except\<close> clauses, lines 241 to 271: each returns a response object; the fields
  it does not name take their default \<^verbatim>\<open>None\<close>.
\<close>

definition failure_response :: "pystr \<Rightarrow> int option \<Rightarrow> pystr \<Rightarrow> URLAnalysisResponse" where
  "failure_response url_str st msg =
     \<lparr> analyzed_url = url_str,
       is_accessible = False,
       analyzed_content_type = None,
       content_length = None,
       analyzed_status_code = st,
       error_message = Some msg \<rparr>"

definition analyze_except :: "pystr \<Rightarrow> exc \<Rightarrow> URLAnalysisResponse" where
  "analyze_except url_str e =
     (if is_Timeout e then failure_response url_str None (ustr ''Request timeout'')
      else if is_ConnectionError e then
        failure_response url_str None (ustr ''Unable to connect to the URL'')
      else if is_HTTPError e then
        failure_response url_str (Some (response_status_code e)) (ustr ''HTTP error: '' @ str_exc e)
      else if is_RequestException e then
        failure_response url_str None (ustr ''Request error: '' @ str_exc e)
      else failure_response url_str None (ustr ''An internal error occurred: '' @ str_exc e))"

text \<open>
  The handler. Every \<^verbatim>\<open>except\<close> clause returns and the last one catches
  \<^verbatim>\<open>Exception\<close>, so the handler has a response for every outcome of the \<^verbatim>\<open>try\<close> body.
\<close>

definition analyze_url :: "world \<Rightarrow> pystr \<Rightarrow> int \<Rightarrow> URLAnalysisResponse" where
  "analyze_url w url_str timeout =
     (case analyze_try w url_str timeout of
        Inr r \<Rightarrow> r
      | Inl e \<Rightarrow> analyze_except url_str e)"

section \<open>Example inputs\<close>

text \<open>
  A world for the examples: the two calls of the HTTP client return the given results,
  the tree builder makes one text node of its input, and the JSON parser rejects every
  input.
\<close>

definition stub_world :: "(exc + http_response) \<Rightarrow> (exc + http_response) \<Rightarrow> world" where
  "stub_world get_result head_result =
     \<lparr> requests_get = (\<lambda>u t f. get_result),
       requests_head = (\<lambda>u t. head_result),
       html_parser = (\<lambda>s. Tag (ustr ''[document]'') [] [NavigableString s]),
       json_loads = (\<lambda>s. Inl (JSONDecodeError (ustr ''Expecting value''))),
       json_dumps = (\<lambda>j. []) \<rparr>"

text \<open>A body chunk of \<open>n\<close> zero bytes, and a plain-text response with a given status and body.\<close>

definition filler :: "nat \<Rightarrow> pybytes" where
  "filler n = replicate n 0"

definition plain_response :: "int \<Rightarrow> pybytes list \<Rightarrow> http_response" where
  "plain_response st chunks =
     \<lparr> resp_status_code = st,
       resp_reason = ustr ''-'',
       resp_url = ustr ''http://example.invalid/'',
       resp_content_type = Some (ustr ''text/plain''),
       resp_content_length = None,
       resp_body = map Chunk chunks \<rparr>"

text \<open>
  Parsed documents: the one of the specification's example, and one for each later
  choice of the main content region.
\<close>

definition doc_main :: node where
  "doc_main =
     Tag (ustr ''[document]'') []
       [Tag (ustr ''html'') []
          [Tag (ustr ''head'') [] [Tag (ustr ''title'') [] [NavigableString (ustr ''T'')]],
           Tag (ustr ''body'') []
             [Tag (ustr ''main'') [] [NavigableString (ustr ''  Hello   World  '')]]]]"

definition doc_article :: node where
  "doc_article =
     Tag (ustr ''[document]'') []
       [Tag (ustr ''body'') []
          [Tag (ustr ''div'') [(ustr ''class'', ustr ''content'')] [NavigableString (ustr ''d'')],
           Tag (ustr ''article'') [] [NavigableString (ustr ''a'')]]]"

definition doc_div :: node where
  "doc_div =
     Tag (ustr ''[document]'') []
       [Tag (ustr ''body'') []
          [Tag (ustr ''div'') [(ustr ''class'', ustr ''sidebar'')] [NavigableString (ustr ''s'')],
           Tag (ustr ''div'') [(ustr ''class'', ustr ''post main-col'')] [NavigableString (ustr ''m'')]]]"

definition doc_body :: node where
  "doc_body =
     Tag (ustr ''[document]'') []
       [Tag (ustr ''body'') [] [Tag (ustr ''p'') [] [NavigableString (ustr ''b'')]]]"

definition doc_bare :: node where
  "doc_bare = Tag (ustr ''[document]'') [] [NavigableString (ustr ''x'')]"

text \<open>
  Documents with Open Graph tags: one whose only tag has an empty content attribute, and
  one with three tags, two of them for the same property.
\<close>

definition og_tag :: "string \<Rightarrow> string \<Rightarrow> node" where
  "og_tag prop val =
     Tag (ustr ''meta'') [(ustr ''property'', ustr prop), (ustr ''content'', ustr val)] []"

definition doc_og_empty :: node where
  "doc_og_empty =
     Tag (ustr ''[document]'') [] [Tag (ustr ''head'') [] [og_tag ''og:title'' '''']]"

definition doc_og :: node where
  "doc_og =
     Tag (ustr ''[document]'') []
       [Tag (ustr ''head'') []
          [og_tag ''og:title'' ''First'', og_tag ''og:image'' ''i.png'',
           og_tag ''og:title'' ''Second'']]"

text \<open>
  A response with status 200 and a given content type, and a world whose JSON parser
  returns the object with the keys \<^verbatim>\<open>a\<close> and \<^verbatim>\<open>b\<close> and whose printer returns that
  object's indented text.
\<close>

definition typed_response :: "string \<Rightarrow> pybytes list \<Rightarrow> http_response" where
  "typed_response ctype chunks =
     \<lparr> resp_status_code = 200,
       resp_reason = ustr ''OK'',
       resp_url = ustr ''http://example.invalid/'',
       resp_content_type = Some (ustr ctype),
       resp_content_length = None,
       resp_body = map Chunk chunks \<rparr>"

definition json_world :: "(exc + http_response) \<Rightarrow> world" where
  "json_world get_result =
     \<lparr> requests_get = (\<lambda>u t f. get_result),
       requests_head = (\<lambda>u t. Inl (Timeout [])),
       html_parser = (\<lambda>s. Tag (ustr ''[document]'') [] [NavigableString s]),
       json_loads = (\<lambda>s. Inr (JObject [(ustr ''a'', JInt 1), (ustr ''b'', JInt 2)])),
       json_dumps = (\<lambda>j. [123, 10, 32, 32, 34, 97, 34, 58, 32, 49, 44, 10,
                             32, 32, 34, 98, 34, 58, 32, 50, 10, 125]) \<rparr>"

text \<open>
  A document with a style and a script element, and a world whose tree builder returns a
  given tree.
\<close>

definition doc_script :: node where
  "doc_script =
     Tag (ustr ''[document]'') []
       [Tag (ustr ''html'') []
          [Tag (ustr ''head'') []
             [Tag (ustr ''title'') [] [NavigableString (ustr ''T'')],
              Tag (ustr ''style'') [] [NavigableString (ustr ''p { }'')]],
           Tag (ustr ''body'') []
             [Tag (ustr ''main'') []
                [NavigableString (ustr ''  Hello '')  ,
                 Tag (ustr ''script'') [] [NavigableString (ustr ''alert(1)'')],
                 Tag (ustr ''b'') [] [NavigableString (ustr ''World  '')]]]]]"

definition html_world :: "node \<Rightarrow> (exc + http_response) \<Rightarrow> world" where
  "html_world doc get_result =
     \<lparr> requests_get = (\<lambda>u t f. get_result),
       requests_head = (\<lambda>u t. Inl (Timeout [])),
       html_parser = (\<lambda>s. doc),
       json_loads = (\<lambda>s. Inl (JSONDecodeError (ustr ''Expecting value''))),
       json_dumps = (\<lambda>j. []) \<rparr>"

section \<open>Existence of a matching element\<close>

text \<open>Some descendant of the tree matches.\<close>

definition has_match :: "(node \<Rightarrow> bool) \<Rightarrow> node \<Rightarrow> bool" where
  "has_match p soup = list_ex p (descendants soup)"

section \<open>Counting tokens\<close>

text \<open>
  The whitespace-delimited tokens of a text, counted directly: a token starts at every
  character that is not whitespace and stands first or after whitespace. The flag tells
  whether the previous character was whitespace (or there is none).
\<close>

fun token_starts :: "bool \<Rightarrow> pystr \<Rightarrow> nat" where
  "token_starts prev [] = 0"
| "token_starts prev (c # cs) =
     (if prev \<and> \<not> is_whitespace c then 1 else 0) + token_starts (is_whitespace c) cs"

definition count_tokens :: "pystr \<Rightarrow> nat" where
  "count_tokens s = token_starts True s"

section \<open>Text outside script and style elements\<close>

text \<open>
  The text nodes of a subtree that lie in no script or style element (the root of the
  subtree included), and the text nodes below a tree that do so: what the text of a
  document is without its scripts and style sheets. \<open>subtree_strings\<close> lists all text
  nodes of a subtree, its root included.
\<close>

fun visible_text :: "node \<Rightarrow> pystr list" where
  "visible_text (NavigableString s) = [s]"
| "visible_text (Comment s) = []"
| "visible_text (Tag n a cs) =
     (if script_or_style (Tag n a cs) then [] else concat (map visible_text cs))"

fun visible_strings :: "node \<Rightarrow> pystr list" where
  "visible_strings (Tag n a cs) = concat (map visible_text cs)"
| "visible_strings (NavigableString s) = []"
| "visible_strings (Comment s) = []"

definition subtree_strings :: "node \<Rightarrow> pystr list" where
  "subtree_strings t = List.map_filter navigable_text (t # descendants t)"

section \<open>Normalised text\<close>

text \<open>
  A text is normalised when it has no line boundary and no two consecutive spaces and
  neither starts nor ends with whitespace. A good chunk is a normalised text that is not
  empty.
\<close>

definition no_linebreak :: "pystr \<Rightarrow> bool" where
  "no_linebreak s = list_all (\<lambda>c. \<not> is_linebreak c) s"

definition trimmed :: "pystr \<Rightarrow> bool" where
  "trimmed s = (s = [] \<or> (\<not> is_whitespace (hd s) \<and> \<not> is_whitespace (last s)))"

definition normalized :: "pystr \<Rightarrow> bool" where
  "normalized s = (no_linebreak s \<and> \<not> py_contains (ustr ''  '') s \<and> trimmed s)"

definition good_chunk :: "pystr \<Rightarrow> bool" where
  "good_chunk g = (g \<noteq> [] \<and> normalized g)"

section \<open>The analyze handler never fails\<close>




section \<open>Decoding always yields text\<close>


text \<open>
  C10. The Latin-1 decoding succeeds on every byte sequence, so decoding as a whole
  yields text also when the UTF-8 decoding fails (then the Latin-1 reading, byte for
  code point), and the branch that raises the 422 error is never taken.
\<close>

theorem latin1_fallback_total:
  "decode_latin1 bs = Some (map unat bs) \<and>
   (\<exists>t. decode_content bs = Inr t) \<and>
   (decode_utf8 bs = None \<longrightarrow> decode_content bs = Inr (map unat bs)) \<and>
   (\<forall>d. decode_content bs \<noteq> Inl (HTTPException 422 d))"
  by (auto simp add: decode_content_def decode_latin1_def split: option.split)

theorem latin1_fallback_total_witness:
  "decode_utf8 [255, 254] = None \<and> decode_content [255, 254] = Inr [255, 254]"
  using latin1_fallback_total [of "[255, 254]"]
  by (simp add: decode_utf8_def)

section \<open>The word count\<close>

lemma length_split_ws_from:
  "length (split_ws_from w s) = (if w = [] then token_starts True s else 1 + token_starts False s)"
  by (induction s arbitrary: w) auto

lemma length_py_split_ws: "length (py_split_ws s) = count_tokens s"
  by (simp add: py_split_ws_def count_tokens_def length_split_ws_from)

lemma concat_split_ws_from:
  "concat (split_ws_from w s) = w @ filter (\<lambda>c. \<not> is_whitespace c) s"
  by (induction s arbitrary: w) auto

lemma tokens_split_ws_from:
  "list_all (\<lambda>c. \<not> is_whitespace c) w \<Longrightarrow>
   list_all (\<lambda>t. t \<noteq> [] \<and> list_all (\<lambda>c. \<not> is_whitespace c) t) (split_ws_from w s)"
  by (induction s arbitrary: w) auto

lemma py_split_ws_tokens:
  "concat (py_split_ws s) = filter (\<lambda>c. \<not> is_whitespace c) s \<and>
   list_all (\<lambda>t. t \<noteq> [] \<and> list_all (\<lambda>c. \<not> is_whitespace c) t) (py_split_ws s)"
  by (simp add: py_split_ws_def concat_split_ws_from tokens_split_ws_from)

lemma fetch_try_word_count:
  "fetch_try w u x f t = Inr r \<Longrightarrow> word_count r = int (length (py_split_ws (content r)))"
  by (auto simp add: fetch_try_def Let_def split: sum.splits prod.splits)

text \<open>
  C9. In every response the fetch handler returns, whatever the content type and
  whichever branch produced the content, \<open>word_count\<close> is the number of pieces
  \<^verbatim>\<open>content.split()\<close> gives, which is the number of whitespace-delimited tokens of
  \<open>content\<close>.
\<close>

theorem word_count_is_token_count:
  "fetch_url_content w u x f t = Inr r \<Longrightarrow>
     word_count r = int (length (py_split_ws (content r))) \<and>
     word_count r = int (count_tokens (content r))"
  using fetch_try_word_count [of w u x f t r]
  by (auto simp add: fetch_url_content_def length_py_split_ws split: sum.splits)

theorem word_count_is_token_count_witness:
  "fetch_url_content
      (stub_world (Inr (plain_response 200 [[72, 105, 32], [121, 111, 117]])) (Inl (Timeout [])))
      (ustr ''http://example.invalid/'') True True 30 =
     Inr \<lparr> url = ustr ''http://example.invalid/'', title = None, content = ustr ''Hi you'',
           content_type = ustr ''text/plain'', status_code = 200, word_count = 2, metadata = [] \<rparr> \<and>
   int (count_tokens (ustr ''Hi you'')) = 2"
proof -
  have h: "fetch_url_content
      (stub_world (Inr (plain_response 200 [[72, 105, 32], [121, 111, 117]])) (Inl (Timeout [])))
      (ustr ''http://example.invalid/'') True True 30 =
     Inr \<lparr> url = ustr ''http://example.invalid/'', title = None, content = ustr ''Hi you'',
           content_type = ustr ''text/plain'', status_code = 200, word_count = 2, metadata = [] \<rparr>"
    by (simp add: fetch_url_content_def fetch_try_def stub_world_def plain_response_def
        raise_for_status_def max_size_def decode_content_def decode_utf8_def process_content_def
        py_lower_def lower_char_def ustr_def py_split_ws_def is_whitespace_def)
  from word_count_is_token_count [OF h] h show ?thesis by simp
qed

section \<open>The size cap\<close>

lemma length_filler: "length (filler n) = n"
  by (simp add: filler_def)

lemma read_content_chunks:
  "length acc \<le> max_size \<Longrightarrow>
   read_content acc (map Chunk cs) =
     (if length acc + length (concat cs) \<le> max_size then Inr (acc @ concat cs)
      else Inl (HTTPException 413 (ustr ''Content too large (max 10MB)'')))"
  by (induction cs arbitrary: acc) auto

lemma read_content_chunks_then_raise:
  "length acc \<le> max_size \<Longrightarrow>
   read_content acc (map Chunk cs @ StreamRaises e # rest) =
     (if length acc + length (concat cs) \<le> max_size then Inl e
      else Inl (HTTPException 413 (ustr ''Content too large (max 10MB)'')))"
  by (induction cs arbitrary: acc) auto


lemma raise_for_status_ok:
  "resp_status_code r < 400 \<or> 600 \<le> resp_status_code r \<Longrightarrow> raise_for_status r = Inr ()"
  by (auto simp add: raise_for_status_def Let_def)





section \<open>What the caller sees when the body is too large\<close>

lemma str_int_413: "str_int 413 = ustr ''413''"
  by (simp add: str_int_def str_nat.simps ustr_def)

lemma fetch_too_large:
  assumes "requests_get w u t f = Inr r"
    and "resp_status_code r < 400 \<or> 600 \<le> resp_status_code r"
    and "resp_body r = map Chunk cs"
    and "max_size < length (concat cs)"
  shows "fetch_url_content w u x f t =
     Inl (HTTPException 500 (ustr ''An internal error occurred: 413: Content too large (max 10MB)''))"
proof -
  have rd: "read_content [] (resp_body r) =
      Inl (HTTPException 413 (ustr ''Content too large (max 10MB)''))"
    using assms(3,4) read_content_chunks [of "[]" cs] by simp
  have msg: "ustr ''An internal error occurred: '' @ str_int 413 @ ustr '': '' @
      ustr ''Content too large (max 10MB)'' =
      ustr ''An internal error occurred: 413: Content too large (max 10MB)''"
    by (simp add: str_int_413) (simp add: ustr_def)
  show ?thesis
    using assms(1) raise_for_status_ok [OF assms(2)] rd msg
    by (simp add: fetch_url_content_def fetch_try_def Let_def fetch_except_def)
qed

text \<open>
  C1 (what the code does). The too-large exception is raised inside the \<^verbatim>\<open>try\<close>
  statement, and the last \<^verbatim>\<open>except\<close> clause, which catches \<^verbatim>\<open>Exception\<close>, catches it
  too: the handler answers a body over 10 MiB with status 500, its detail quoting the
  413.
\<close>

theorem fetch_too_large_surfaces_as_500:
  "requests_get w u t f = Inr r \<Longrightarrow>
   resp_status_code r < 400 \<or> 600 \<le> resp_status_code r \<Longrightarrow>
   resp_body r = map Chunk cs \<Longrightarrow>
   10 * 1024 * 1024 < length (concat cs) \<Longrightarrow>
   fetch_url_content w u x f t =
     Inl (HTTPException 500 (ustr ''An internal error occurred: 413: Content too large (max 10MB)''))"
  using fetch_too_large [of w u t f r cs x] by (simp add: max_size_def)

theorem fetch_too_large_surfaces_as_500_witness:
  "fetch_url_content
      (stub_world (Inr (plain_response 200 [filler 10485760, filler 1])) (Inl (Timeout [])))
      (ustr ''http://example.invalid/'') True True 30 =
     Inl (HTTPException 500 (ustr ''An internal error occurred: 413: Content too large (max 10MB)''))"
  using fetch_too_large_surfaces_as_500 [of
      "stub_world (Inr (plain_response 200 [filler 10485760, filler 1])) (Inl (Timeout []))"
      "ustr ''http://example.invalid/''" 30 True "plain_response 200 [filler 10485760, filler 1]"
      "[filler 10485760, filler 1]" True]
  by (simp add: stub_world_def plain_response_def length_filler)

section \<open>The analyze handler and HTTP error statuses\<close>

text \<open>
  C3 (what the code does). The analyze handler does not call \<^verbatim>\<open>raise_for_status\<close>:
  whatever the status of the response to the HEAD request, 404 or 500 included, the
  result has \<open>is_accessible\<close> true, that status code and no error message.
\<close>

theorem analyze_ignores_http_error_status:
  "requests_head w u t = Inr r \<Longrightarrow>
   parse_content_length (resp_content_length r) = Inr n \<Longrightarrow>
   analyze_url w u t =
     \<lparr> analyzed_url = u,
       is_accessible = True,
       analyzed_content_type = Some (case resp_content_type r of Some v \<Rightarrow> v | None \<Rightarrow> []),
       content_length = n,
       analyzed_status_code = Some (resp_status_code r),
       error_message = None \<rparr>"
  by (simp add: analyze_url_def analyze_try_def)

theorem analyze_ignores_http_error_status_witness:
  "is_accessible (analyze_url (stub_world (Inl (Timeout [])) (Inr (plain_response 404 [])))
       (ustr ''http://example.invalid/'') 10) = True \<and>
   analyzed_status_code (analyze_url (stub_world (Inl (Timeout [])) (Inr (plain_response 404 [])))
       (ustr ''http://example.invalid/'') 10) = Some 404 \<and>
   error_message (analyze_url (stub_world (Inl (Timeout [])) (Inr (plain_response 404 [])))
       (ustr ''http://example.invalid/'') 10) = None"
  using analyze_ignores_http_error_status [of
      "stub_world (Inl (Timeout [])) (Inr (plain_response 404 []))"
      "ustr ''http://example.invalid/''" 10 "plain_response 404 []" None]
  by (simp add: stub_world_def plain_response_def parse_content_length_def)

section \<open>The choice of the main content region\<close>

lemma find_first_split:
  "List.find p xs = Some m \<longleftrightarrow>
     (\<exists>before after. xs = before @ m # after \<and> p m \<and> list_all (\<lambda>x. \<not> p x) before)"
proof (induction xs)
  case Nil
  then show ?case by simp
next
  case (Cons x xs)
  show ?case
  proof (cases "p x")
    case True
    have "(\<exists>before after. x # xs = before @ m # after \<and> p m \<and> list_all (\<lambda>x. \<not> p x) before)
        \<longleftrightarrow> x = m"
    proof
      assume "\<exists>before after. x # xs = before @ m # after \<and> p m \<and> list_all (\<lambda>x. \<not> p x) before"
      then obtain b a where h: "x # xs = b @ m # a" "list_all (\<lambda>x. \<not> p x) b" by blast
      show "x = m"
      proof (cases b)
        case Nil
        with h show ?thesis by simp
      next
        case (Cons y ys)
        with h True show ?thesis by simp
      qed
    next
      assume "x = m"
      with True have "x # xs = [] @ m # xs \<and> p m \<and> list_all (\<lambda>x. \<not> p x) []" by simp
      then show "\<exists>before after. x # xs = before @ m # after \<and> p m \<and> list_all (\<lambda>x. \<not> p x) before"
        by blast
    qed
    with True show ?thesis by auto
  next
    case False
    have "(\<exists>before after. x # xs = before @ m # after \<and> p m \<and> list_all (\<lambda>x. \<not> p x) before)
        \<longleftrightarrow> (\<exists>before after. xs = before @ m # after \<and> p m \<and> list_all (\<lambda>x. \<not> p x) before)"
    proof
      assume "\<exists>before after. x # xs = before @ m # after \<and> p m \<and> list_all (\<lambda>x. \<not> p x) before"
      then obtain b a where h: "x # xs = b @ m # a" "p m" "list_all (\<lambda>x. \<not> p x) b" by blast
      show "\<exists>before after. xs = before @ m # after \<and> p m \<and> list_all (\<lambda>x. \<not> p x) before"
      proof (cases b)
        case Nil
        with h False show ?thesis by simp
      next
        case (Cons y ys)
        with h have "xs = ys @ m # a \<and> p m \<and> list_all (\<lambda>x. \<not> p x) ys" by simp
        then show ?thesis by blast
      qed
    next
      assume "\<exists>before after. xs = before @ m # after \<and> p m \<and> list_all (\<lambda>x. \<not> p x) before"
      then obtain b a where h: "xs = b @ m # a" "p m" "list_all (\<lambda>x. \<not> p x) b" by blast
      with False have "x # xs = (x # b) @ m # a \<and> p m \<and> list_all (\<lambda>x. \<not> p x) (x # b)" by simp
      then show "\<exists>before after. x # xs = before @ m # after \<and> p m \<and> list_all (\<lambda>x. \<not> p x) before"
        by blast
    qed
    with False Cons.IH show ?thesis by simp
  qed
qed

lemma bs_find_first:
  "bs_find p soup = Some m \<longleftrightarrow>
     (\<exists>before after. descendants soup = before @ m # after \<and> p m \<and>
        list_all (\<lambda>x. \<not> p x) before)"
  by (simp add: bs_find_def find_first_split)

lemma bs_find_None: "bs_find p soup = None \<longleftrightarrow> \<not> has_match p soup"
  by (auto simp add: bs_find_def has_match_def find_None_iff list_ex_iff)

lemma bs_find_Some: "has_match p soup \<Longrightarrow> \<exists>m. bs_find p soup = Some m"
  using bs_find_None [of p soup] by (cases "bs_find p soup") auto

lemma select_main_content_cases:
  "select_main_content soup =
     (case bs_find (is_tag (ustr ''main'')) soup of
        Some m \<Rightarrow> m
      | None \<Rightarrow>
     (case bs_find (is_tag (ustr ''article'')) soup of
        Some a \<Rightarrow> a
      | None \<Rightarrow>
     (case bs_find content_div soup of
        Some d \<Rightarrow> d
      | None \<Rightarrow>
     (case bs_find (is_tag (ustr ''body'')) soup of
        Some b \<Rightarrow> b
      | None \<Rightarrow> soup))))"
  by (simp add: select_main_content_def py_or_def split: option.split)

text \<open>
  C6. The main content region is chosen in this order: the first \<^verbatim>\<open>main\<close> element in
  document order if there is one; else the first \<^verbatim>\<open>article\<close> element; else the first
  \<^verbatim>\<open>div\<close> whose class attribute matches one of \<^verbatim>\<open>content\<close>, \<^verbatim>\<open>main\<close>,
  \<^verbatim>\<open>article\<close> (compared code point by code point, so case-sensitively); else the
  \<^verbatim>\<open>body\<close> element; else the whole tree. The text the routine returns is the
  normalised text of that region of the tree it searches, which is the parsed tree
  without its script and style elements.
\<close>

theorem main_content_fallback_order:
  "(has_match (is_tag (ustr ''main'')) soup \<longrightarrow>
      bs_find (is_tag (ustr ''main'')) soup = Some (select_main_content soup)) \<and>
   (\<not> has_match (is_tag (ustr ''main'')) soup \<and> has_match (is_tag (ustr ''article'')) soup \<longrightarrow>
      bs_find (is_tag (ustr ''article'')) soup = Some (select_main_content soup)) \<and>
   (\<not> has_match (is_tag (ustr ''main'')) soup \<and> \<not> has_match (is_tag (ustr ''article'')) soup \<and>
    has_match content_div soup \<longrightarrow>
      bs_find content_div soup = Some (select_main_content soup)) \<and>
   (\<not> has_match (is_tag (ustr ''main'')) soup \<and> \<not> has_match (is_tag (ustr ''article'')) soup \<and>
    \<not> has_match content_div soup \<and> has_match (is_tag (ustr ''body'')) soup \<longrightarrow>
      bs_find (is_tag (ustr ''body'')) soup = Some (select_main_content soup)) \<and>
   (\<not> has_match (is_tag (ustr ''main'')) soup \<and> \<not> has_match (is_tag (ustr ''article'')) soup \<and>
    \<not> has_match content_div soup \<and> \<not> has_match (is_tag (ustr ''body'')) soup \<longrightarrow>
      select_main_content soup = soup) \<and>
   fst (extract_text_from_soup parsed) =
     normalize_whitespace (get_text (select_main_content (decompose_all script_or_style parsed)))"
  using bs_find_Some [of "is_tag (ustr ''main'')" soup]
    bs_find_Some [of "is_tag (ustr ''article'')" soup]
    bs_find_Some [of content_div soup]
    bs_find_Some [of "is_tag (ustr ''body'')" soup]
  by (auto simp add: select_main_content_cases bs_find_None [symmetric] extract_text_from_soup_def
      Let_def)

lemmas html_eval = bs_find_def has_match_def content_div_def class_pattern_def ustr_def
  py_split_ws_def is_whitespace_def select_main_content_def py_or_def

theorem main_content_fallback_order_witness:
  "select_main_content doc_main =
     Tag (ustr ''main'') [] [NavigableString (ustr ''  Hello   World  '')] \<and>
   select_main_content doc_article = Tag (ustr ''article'') [] [NavigableString (ustr ''a'')] \<and>
   select_main_content doc_div =
     Tag (ustr ''div'') [(ustr ''class'', ustr ''post main-col'')] [NavigableString (ustr ''m'')] \<and>
   select_main_content doc_body =
     Tag (ustr ''body'') [] [Tag (ustr ''p'') [] [NavigableString (ustr ''b'')]] \<and>
   select_main_content doc_bare = doc_bare \<and>
   fst (extract_text_from_soup doc_main) = ustr ''Hello World''"
  using main_content_fallback_order [of doc_main doc_main]
    main_content_fallback_order [of doc_article doc_main]
    main_content_fallback_order [of doc_div doc_main]
    main_content_fallback_order [of doc_body doc_main]
    main_content_fallback_order [of doc_bare doc_main]
  by (simp add: doc_main_def doc_article_def doc_div_def doc_body_def doc_bare_def html_eval
      script_or_style_def get_text_def all_strings_def List.map_filter_def
      normalize_whitespace_def py_splitlines_def py_split_def py_strip_def is_linebreak_def)

section \<open>Open Graph metadata\<close>





lemma og_entry_skipped:
  "attr_get_default tag (ustr ''content'') [] = [] \<Longrightarrow> og_entry tag = None"
  by (simp add: og_entry_def Let_def)




lemmas og_eval = doc_og_def doc_og_empty_def og_tag_def bs_find_all_def og_meta_def ustr_def
  extract_metadata_def set_from_meta_def bs_find_def meta_named_def og_step_def og_entry_def
  attr_get_default_def



lemma og_last_duplicate_wins:
  "extract_metadata doc_og =
     [(ustr ''og_title'', MetaStr (ustr ''Second'')), (ustr ''og_image'', MetaStr (ustr ''i.png''))]"
  by (simp add: og_eval)

section \<open>JSON bodies\<close>

lemma fetch_json_branch:
  assumes "requests_get w u t f = Inr r"
    and "resp_status_code r < 400 \<or> 600 \<le> resp_status_code r"
    and "read_content [] (resp_body r) = Inr body"
    and "decode_content body = Inr decoded"
    and "ctype = py_lower (case resp_content_type r of Some v \<Rightarrow> v | None \<Rightarrow> [])"
    and "py_contains (ustr ''application/json'') ctype"
    and "\<not> (py_contains (ustr ''text/html'') ctype \<and> x)"
  shows "fetch_try w u x f t =
     (case json_loads w decoded of
        Inr j \<Rightarrow>
          Inr \<lparr> url = u, title = None, content = json_dumps w j, content_type = ctype,
                status_code = resp_status_code r,
                word_count = int (length (py_split_ws (json_dumps w j))),
                metadata = [(ustr ''json_keys'', MetaList (json_keys j))] \<rparr>
      | Inl e \<Rightarrow>
          if is_JSONDecodeError e
          then Inr \<lparr> url = u, title = None, content = decoded, content_type = ctype,
                     status_code = resp_status_code r,
                     word_count = int (length (py_split_ws decoded)),
                     metadata = [] \<rparr>
          else Inl e)"
  using assms raise_for_status_ok [OF assms(2)]
  by (auto simp add: fetch_try_def process_content_def Let_def split: sum.split)

text \<open>
  C7, as the code has it. When the lowered content type contains
  \<^verbatim>\<open>application/json\<close> and the HTML branch does not apply (the content type does not
  contain \<^verbatim>\<open>text/html\<close>, or \<open>extract_text\<close> is false): if the parser raises
  \<^verbatim>\<open>JSONDecodeError\<close> on the decoded body, the handler returns a response whose
  content is the decoded text unchanged, with empty metadata; if the parser returns a
  value, the content is that value printed with indentation, and the metadata lists its
  keys.
\<close>

theorem json_parse_failure_keeps_raw_text:
  assumes "requests_get w u t f = Inr r"
    and "resp_status_code r < 400 \<or> 600 \<le> resp_status_code r"
    and "read_content [] (resp_body r) = Inr body"
    and "decode_content body = Inr decoded"
    and "ctype = py_lower (case resp_content_type r of Some v \<Rightarrow> v | None \<Rightarrow> [])"
    and "py_contains (ustr ''application/json'') ctype"
    and "\<not> (py_contains (ustr ''text/html'') ctype \<and> x)"
  shows "(json_loads w decoded = Inl e \<and> is_JSONDecodeError e \<longrightarrow>
            fetch_url_content w u x f t =
              Inr \<lparr> url = u, title = None, content = decoded, content_type = ctype,
                    status_code = resp_status_code r,
                    word_count = int (length (py_split_ws decoded)),
                    metadata = [] \<rparr>) \<and>
         (json_loads w decoded = Inr j \<longrightarrow>
            fetch_url_content w u x f t =
              Inr \<lparr> url = u, title = None, content = json_dumps w j, content_type = ctype,
                    status_code = resp_status_code r,
                    word_count = int (length (py_split_ws (json_dumps w j))),
                    metadata = [(ustr ''json_keys'', MetaList (json_keys j))] \<rparr>)"
  using fetch_json_branch [OF assms]
  by (simp add: fetch_url_content_def)

lemmas fetch_eval = fetch_url_content_def fetch_try_def stub_world_def json_world_def
  typed_response_def raise_for_status_def max_size_def decode_content_def decode_utf8_def
  process_content_def py_lower_def lower_char_def ustr_def py_split_ws_def is_whitespace_def
  is_linebreak_def extract_text_from_html_def extract_text_from_soup_def script_or_style_def
  select_main_content_def py_or_def bs_find_def bs_find_all_def content_div_def
  class_pattern_def get_text_def all_strings_def List.map_filter_def normalize_whitespace_def
  py_splitlines_def py_split_def py_strip_def extract_title_def extract_metadata_def
  set_from_meta_def meta_named_def og_meta_def is_cont_def

theorem json_parse_failure_keeps_raw_text_witness:
  "fetch_url_content
      (stub_world (Inr (typed_response ''Application/JSON''
         [[123, 98, 97, 100, 32, 32, 106, 115, 111, 110]])) (Inl (Timeout [])))
      (ustr ''http://example.invalid/'') True True 30 =
     Inr \<lparr> url = ustr ''http://example.invalid/'', title = None,
           content = ustr ''{bad  json'', content_type = ustr ''application/json'',
           status_code = 200, word_count = 2, metadata = [] \<rparr> \<and>
   fetch_url_content
      (json_world (Inr (typed_response ''application/json''
         [[123, 34, 97, 34, 58, 49, 44, 34, 98, 34, 58, 50, 125]])))
      (ustr ''http://example.invalid/'') True True 30 =
     Inr \<lparr> url = ustr ''http://example.invalid/'', title = None,
           content = [123, 10, 32, 32, 34, 97, 34, 58, 32, 49, 44, 10,
                      32, 32, 34, 98, 34, 58, 32, 50, 10, 125],
           content_type = ustr ''application/json'',
           status_code = 200, word_count = 6,
           metadata = [(ustr ''json_keys'', MetaList [ustr ''a'', ustr ''b''])] \<rparr>"
  using json_parse_failure_keeps_raw_text [of
      "stub_world (Inr (typed_response ''Application/JSON''
         [[123, 98, 97, 100, 32, 32, 106, 115, 111, 110]])) (Inl (Timeout []))"
      "ustr ''http://example.invalid/''" 30 True
      "typed_response ''Application/JSON'' [[123, 98, 97, 100, 32, 32, 106, 115, 111, 110]]"
      "[123, 98, 97, 100, 32, 32, 106, 115, 111, 110]" "ustr ''{bad  json''"
      "ustr ''application/json''" True "JSONDecodeError (ustr ''Expecting value'')" JNull]
    json_parse_failure_keeps_raw_text [of
      "json_world (Inr (typed_response ''application/json''
         [[123, 34, 97, 34, 58, 49, 44, 34, 98, 34, 58, 50, 125]]))"
      "ustr ''http://example.invalid/''" 30 True
      "typed_response ''application/json'' [[123, 34, 97, 34, 58, 49, 44, 34, 98, 34, 58, 50, 125]]"
      "[123, 34, 97, 34, 58, 49, 44, 34, 98, 34, 58, 50, 125]"
      "[123, 34, 97, 34, 58, 49, 44, 34, 98, 34, 58, 50, 125]"
      "ustr ''application/json''" True "Timeout []"
      "JObject [(ustr ''a'', JInt 1), (ustr ''b'', JInt 2)]"]
  by (simp add: fetch_eval)

text \<open>
  The claim as stated fails when the content type contains \<^verbatim>\<open>text/html\<close> as well and
  \<open>extract_text\<close> is true: line 170 is tested first, the body goes through the HTML
  extraction, and the content returned is not the raw text (here the two spaces of the
  body have become one).
\<close>

theorem json_content_type_with_html_counterexample:
  "py_contains (ustr ''application/json'') (ustr ''text/html; profile=application/json'') \<and>
   json_loads (stub_world (Inr (typed_response ''text/html; profile=application/json''
         [[123, 98, 97, 100, 32, 32, 106, 115, 111, 110]])) (Inl (Timeout [])))
      (ustr ''{bad  json'') = Inl (JSONDecodeError (ustr ''Expecting value'')) \<and>
   fetch_url_content
      (stub_world (Inr (typed_response ''text/html; profile=application/json''
         [[123, 98, 97, 100, 32, 32, 106, 115, 111, 110]])) (Inl (Timeout [])))
      (ustr ''http://example.invalid/'') True True 30 =
     Inr \<lparr> url = ustr ''http://example.invalid/'', title = None,
           content = ustr ''{bad json'',
           content_type = ustr ''text/html; profile=application/json'',
           status_code = 200, word_count = 2, metadata = [] \<rparr>"
  by (simp add: fetch_eval)

section \<open>The whitespace clean-up\<close>

lemma two_spaces: "ustr ''  '' = [32, 32]"
  by (simp add: ustr_def)

lemma one_space: "ustr '' '' = [32]"
  by (simp add: ustr_def)

lemma space_is_whitespace: "is_whitespace 32"
  by (simp add: is_whitespace_def)

lemma space_no_linebreak: "\<not> is_linebreak 32"
  by (simp add: is_linebreak_def)

lemma py_contains_sublist: "py_contains sub s \<longleftrightarrow> sublist sub s"
  by (induction s) (simp_all add: sublist_Cons_right)

lemma dsp_Cons:
  "py_contains [32, 32] (x # xs) \<longleftrightarrow> (x = 32 \<and> xs \<noteq> [] \<and> hd xs = 32) \<or> py_contains [32, 32] xs"
  by (cases xs) auto

lemma dsp_Nil: "\<not> py_contains [32, 32] []"
  by simp

lemma dsp_append:
  "py_contains [32, 32] (a @ b) \<longleftrightarrow>
     py_contains [32, 32] a \<or> py_contains [32, 32] b \<or>
     (a \<noteq> [] \<and> b \<noteq> [] \<and> last a = 32 \<and> hd b = 32)"
proof (induction a)
  case Nil
  then show ?case by simp
next
  case (Cons x a)
  show ?case
  proof (cases "a = []")
    case True
    then show ?thesis by (cases b) auto
  next
    case False
    with Cons show ?thesis
      by (simp only: append_Cons dsp_Cons) (auto simp add: hd_append)
  qed
qed

subsection \<open>splitlines\<close>

lemma splitlines_from_no_linebreak:
  "no_linebreak l \<Longrightarrow> list_all no_linebreak (splitlines_from l s)"
proof (induction l s rule: splitlines_from.induct)
  case (1 l)
  then show ?case by simp
next
  case (2 l c cs)
  then show ?case
    by (cases cs) (auto simp add: no_linebreak_def)
qed

lemma splitlines_from_one_line:
  "no_linebreak s \<Longrightarrow> splitlines_from l s = (if l @ s = [] then [] else [l @ s])"
  by (induction s arbitrary: l) (auto simp add: no_linebreak_def)

subsection \<open>strip\<close>

lemma py_strip_sublist: "sublist (py_strip s) s"
proof -
  have "prefix (rev (dropWhile is_whitespace (rev (dropWhile is_whitespace s))))
          (dropWhile is_whitespace s)"
  proof -
    have "rev (dropWhile is_whitespace s) =
        takeWhile is_whitespace (rev (dropWhile is_whitespace s)) @
        dropWhile is_whitespace (rev (dropWhile is_whitespace s))" by simp
    then have "dropWhile is_whitespace s =
        rev (dropWhile is_whitespace (rev (dropWhile is_whitespace s))) @
        rev (takeWhile is_whitespace (rev (dropWhile is_whitespace s)))"
      by (metis rev_append rev_rev_ident)
    then show ?thesis by (metis prefixI)
  qed
  then have "sublist (py_strip s) (dropWhile is_whitespace s)"
    by (simp add: py_strip_def)
  moreover have "sublist (dropWhile is_whitespace s) s" by simp
  ultimately show ?thesis by (rule sublist_order.order.trans)
qed

lemma py_strip_trimmed: "trimmed (py_strip s)"
proof (cases "py_strip s = []")
  case True
  then show ?thesis by (simp add: trimmed_def)
next
  case False
  let ?d = "dropWhile is_whitespace s"
  let ?e = "dropWhile is_whitespace (rev ?d)"
  from False have e: "?e \<noteq> []" by (simp add: py_strip_def)
  then have d: "?d \<noteq> []" by (auto dest: set_dropWhileD)
  have "last (py_strip s) = hd ?e" by (simp add: py_strip_def last_rev)
  with e have l: "\<not> is_whitespace (last (py_strip s))" by (simp add: hd_dropWhile)
  have "suffix ?e (rev ?d)" by (rule suffix_dropWhile)
  then obtain z where "rev ?d = z @ ?e" by (auto simp add: suffix_def)
  with e have "last (rev ?d) = last ?e" by (metis last_appendR)
  then have "hd ?d = last ?e" by (simp add: last_rev)
  moreover have "hd (py_strip s) = last ?e" by (simp add: py_strip_def hd_rev)
  moreover from d have "\<not> is_whitespace (hd ?d)" by (rule hd_dropWhile)
  ultimately have "\<not> is_whitespace (hd (py_strip s))" by simp
  with l show ?thesis by (simp add: trimmed_def)
qed

lemma py_strip_fixed: "trimmed s \<Longrightarrow> py_strip s = s"
proof (cases "s = []")
  case True
  then show ?thesis by (simp add: py_strip_def)
next
  case False
  assume "trimmed s"
  with False have h: "\<not> is_whitespace (hd s)" and l: "\<not> is_whitespace (last s)"
    by (simp_all add: trimmed_def)
  from h have "dropWhile is_whitespace s = s" by (simp add: dropWhile_eq_self_iff)
  moreover from l False have "dropWhile is_whitespace (rev s) = rev s"
    by (simp add: dropWhile_eq_self_iff hd_rev)
  ultimately show ?thesis by (simp add: py_strip_def)
qed

lemma py_strip_no_linebreak: "no_linebreak s \<Longrightarrow> no_linebreak (py_strip s)"
proof -
  assume a: "no_linebreak s"
  obtain p q where "s = p @ py_strip s @ q"
    using py_strip_sublist [of s] by (auto simp add: sublist_def)
  with a show ?thesis
    by (metis list_all_append no_linebreak_def)
qed

lemma py_strip_no_double_space:
  "\<not> py_contains [32, 32] s \<Longrightarrow> \<not> py_contains [32, 32] (py_strip s)"
  using py_strip_sublist [of s] sublist_order.order.trans [of "[32, 32]" "py_strip s" s]
  by (auto simp add: py_contains_sublist)

subsection \<open>split on two spaces\<close>

lemma split_from_absent: "\<not> py_contains sep s \<Longrightarrow> split_from sep p s = [p @ s]"
  by (induction s arbitrary: p) auto

lemma split_from_no_linebreak:
  "no_linebreak p \<Longrightarrow> no_linebreak s \<Longrightarrow> list_all no_linebreak (split_from sep p s)"
proof (induction sep p s rule: split_from.induct)
  case (1 sep p)
  then show ?case by simp
next
  case (2 sep p c cs)
  have d: "no_linebreak (drop (length sep) (c # cs))"
    using "2.prems"(2) set_drop_subset [of "length sep" "c # cs"]
    by (auto simp add: no_linebreak_def list_all_iff)
  from "2.prems" have e: "no_linebreak (p @ [c])" and f: "no_linebreak cs" and g: "no_linebreak []"
    by (simp_all add: no_linebreak_def)
  show ?case
  proof (cases "sep \<noteq> [] \<and> prefix sep (c # cs)")
    case True
    with "2.IH"(1) [OF True g d] "2.prems"(1) show ?thesis by simp
  next
    case False
    with "2.IH"(2) [OF False e f] show ?thesis by auto
  qed
qed

lemma prefix_two_spaces:
  "prefix [32, 32] (c # cs) \<longleftrightarrow> c = 32 \<and> cs \<noteq> [] \<and> hd cs = 32"
  by (cases cs) auto

lemma split_from_no_double_space:
  "sep = [32, 32] \<Longrightarrow> \<not> py_contains [32, 32] (p @ take 1 s) \<Longrightarrow>
   list_all (\<lambda>x. \<not> py_contains [32, 32] x) (split_from sep p s)"
proof (induction sep p s rule: split_from.induct)
  case (1 sep p)
  then show ?case by simp
next
  case (2 sep p c cs)
  from "2.prems"(2) have pc: "\<not> py_contains [32, 32] (p @ [c])" by simp
  then have p: "\<not> py_contains [32, 32] p" by (simp add: dsp_append)
  show ?case
  proof (cases "sep \<noteq> [] \<and> prefix sep (c # cs)")
    case True
    have "\<not> py_contains [32, 32] ([] @ take 1 (drop (length sep) (c # cs)))"
      by (cases "drop (length sep) (c # cs)") simp_all
    with "2.IH"(1) [OF True "2.prems"(1)] True p show ?thesis by simp
  next
    case False
    with "2.prems"(1) have np: "\<not> (c = 32 \<and> cs \<noteq> [] \<and> hd cs = 32)"
      by (cases cs) auto
    have t: "\<not> py_contains [32, 32] (take 1 cs)" by (cases cs) simp_all
    have "\<not> py_contains [32, 32] ((p @ [c]) @ take 1 cs)"
    proof (cases cs)
      case Nil
      with pc show ?thesis by simp
    next
      case (Cons a list)
      have "py_contains [32, 32] ((p @ [c]) @ [a]) \<longleftrightarrow>
          py_contains [32, 32] (p @ [c]) \<or> py_contains [32, 32] [a] \<or>
          (p @ [c] \<noteq> [] \<and> [a] \<noteq> [] \<and> last (p @ [c]) = 32 \<and> hd [a] = 32)"
        by (rule dsp_append)
      with pc np Cons show ?thesis by simp
    qed
    with "2.IH"(2) [OF False "2.prems"(1)] False show ?thesis by auto
  qed
qed

lemma py_split_pieces:
  "no_linebreak s \<Longrightarrow>
   list_all (\<lambda>x. no_linebreak x \<and> \<not> py_contains [32, 32] x) (py_split [32, 32] s)"
proof -
  assume a: "no_linebreak s"
  have "\<not> py_contains [32, 32] ([] @ take 1 s)" by (cases s) simp_all
  then have "list_all (\<lambda>x. \<not> py_contains [32, 32] x) (split_from [32, 32] [] s)"
    using split_from_no_double_space [of "[32, 32]" "[]" s] by simp
  moreover have "list_all no_linebreak (split_from [32, 32] [] s)"
    using split_from_no_linebreak [of "[]" s "[32, 32]"] a by (simp add: no_linebreak_def)
  ultimately show ?thesis by (simp add: py_split_def list_all_iff)
qed

subsection \<open>join\<close>

lemma py_join_good:
  "list_all good_chunk gs \<Longrightarrow> gs \<noteq> [] \<Longrightarrow>
   py_join [32] gs \<noteq> [] \<and> hd (py_join [32] gs) = hd (hd gs) \<and>
   last (py_join [32] gs) = last (last gs) \<and> no_linebreak (py_join [32] gs) \<and>
   \<not> py_contains [32, 32] (py_join [32] gs)"
proof (induction "[32::nat]" gs rule: py_join.induct)
  case 1
  then show ?case by simp
next
  case (2 x)
  then show ?case by (simp add: good_chunk_def normalized_def two_spaces)
next
  case (3 x y ys)
  from "3.prems" have gx: "good_chunk x" and rest: "list_all good_chunk (y # ys)" by simp_all
  from "3.hyps" [OF rest] have ih:
    "py_join [32] (y # ys) \<noteq> []" "hd (py_join [32] (y # ys)) = hd y"
    "last (py_join [32] (y # ys)) = last (last (y # ys))"
    "no_linebreak (py_join [32] (y # ys))" "\<not> py_contains [32, 32] (py_join [32] (y # ys))"
    by simp_all
  from gx have x: "x \<noteq> []" "\<not> is_whitespace (last x)" "no_linebreak x"
    "\<not> py_contains [32, 32] x"
    by (auto simp add: good_chunk_def normalized_def trimmed_def two_spaces)
  from rest have y: "\<not> is_whitespace (hd y)"
    by (auto simp add: good_chunk_def normalized_def trimmed_def)
  from x(2) have lx: "last x \<noteq> 32" using space_is_whitespace by auto
  from y ih(2) have hy: "hd (py_join [32] (y # ys)) \<noteq> 32" using space_is_whitespace by auto
  have a: "\<not> py_contains [32, 32] (32 # py_join [32] (y # ys))"
    using ih(5) hy by (simp only: dsp_Cons) simp
  have b: "\<not> py_contains [32, 32] (x @ 32 # py_join [32] (y # ys))"
    using x(4) a lx by (simp add: dsp_append [of x])
  have c: "no_linebreak (x @ 32 # py_join [32] (y # ys))"
    using x(3) ih(4) space_no_linebreak by (simp add: no_linebreak_def)
  from x(1) ih(1) ih(3) b c show ?case by (simp add: hd_append)
qed

lemma py_join_normalized:
  "list_all good_chunk gs \<Longrightarrow> normalized (py_join [32] gs)"
proof (cases "gs = []")
  case True
  then show ?thesis by (simp add: normalized_def no_linebreak_def trimmed_def two_spaces)
next
  case False
  assume a: "list_all good_chunk gs"
  from False have "hd gs \<in> set gs" and "last gs \<in> set gs" by simp_all
  with a have "good_chunk (hd gs)" and "good_chunk (last gs)" by (simp_all add: list_all_iff)
  then have "\<not> is_whitespace (hd (hd gs))" and "\<not> is_whitespace (last (last gs))"
    by (auto simp add: good_chunk_def normalized_def trimmed_def)
  with py_join_good [OF a False] show ?thesis
    by (simp add: normalized_def trimmed_def two_spaces)
qed

subsection \<open>the clean-up\<close>

lemma normalize_whitespace_normalized: "normalized (normalize_whitespace t)"
proof -
  let ?lines = "map py_strip (py_splitlines t)"
  let ?chunks = "map py_strip (concat (map (py_split [32, 32]) ?lines))"
  have l: "list_all no_linebreak ?lines"
    using splitlines_from_no_linebreak [of "[]" t]
    by (auto simp add: py_splitlines_def list_all_iff no_linebreak_def [of "[]"]
        intro: py_strip_no_linebreak)
  have p: "list_all (\<lambda>x. no_linebreak x \<and> \<not> py_contains [32, 32] x)
      (concat (map (py_split [32, 32]) ?lines))"
    using l py_split_pieces by (fastforce simp add: list_all_iff)
  have "list_all normalized ?chunks"
    using p py_strip_trimmed py_strip_no_linebreak py_strip_no_double_space
    by (auto simp add: list_all_iff normalized_def two_spaces)
  then have "list_all good_chunk (filter (\<lambda>chunk. chunk \<noteq> []) ?chunks)"
    by (auto simp add: list_all_iff good_chunk_def)
  then show ?thesis
    using py_join_normalized by (simp add: normalize_whitespace_def two_spaces one_space)
qed

lemma normalize_whitespace_fixed: "normalized s \<Longrightarrow> normalize_whitespace s = s"
proof (cases "s = []")
  case True
  then show ?thesis by (simp add: normalize_whitespace_def py_splitlines_def)
next
  case False
  assume n: "normalized s"
  then have a: "no_linebreak s" and b: "\<not> py_contains [32, 32] s" and c: "trimmed s"
    by (simp_all add: normalized_def two_spaces)
  from a False have "py_splitlines s = [s]"
    by (simp add: py_splitlines_def splitlines_from_one_line)
  moreover from c have "py_strip s = s" by (rule py_strip_fixed)
  moreover from b have "py_split [32, 32] s = [s]"
    by (simp add: py_split_def split_from_absent)
  ultimately show ?thesis
    using False by (simp add: normalize_whitespace_def two_spaces one_space)
qed

lemma normalize_whitespace_idem:
  "normalize_whitespace (normalize_whitespace t) = normalize_whitespace t"
  using normalize_whitespace_normalized by (rule normalize_whitespace_fixed)

section \<open>No text of scripts and style sheets\<close>

lemma map_filter_concat:
  "List.map_filter f (concat xss) = concat (map (List.map_filter f) xss)"
  by (induction xss) (simp_all add: List.map_filter_def)

lemma all_strings_Tag: "all_strings (Tag n a cs) = concat (map subtree_strings cs)"
  by (simp add: all_strings_def map_filter_concat comp_def subtree_strings_def [abs_def]
      del: map_filter_simps)

lemma subtree_strings_simps:
  "subtree_strings (NavigableString s) = [s]"
  "subtree_strings (Comment s) = []"
  "subtree_strings (Tag n a cs) = all_strings (Tag n a cs)"
  by (simp_all add: subtree_strings_def all_strings_def List.map_filter_def)

lemma script_or_style_hidden: "script_or_style c \<Longrightarrow> visible_text c = []"
  by (cases c) (simp_all add: script_or_style_def)

lemma script_or_style_decompose:
  "script_or_style (decompose_all p c) = script_or_style c"
  by (cases c) (simp_all add: script_or_style_def)

lemma concat_map_filter_hidden:
  "(\<And>c. c \<in> set cs \<Longrightarrow> \<not> p c \<Longrightarrow> g c = f c) \<Longrightarrow> (\<And>c. p c \<Longrightarrow> f c = []) \<Longrightarrow>
   concat (map g (filter (\<lambda>c. \<not> p c) cs)) = concat (map f cs)"
  by (induction cs) auto

lemma subtree_strings_decompose:
  "\<not> script_or_style t \<Longrightarrow>
   subtree_strings (decompose_all script_or_style t) = visible_text t"
proof (induction t)
  case (NavigableString s)
  then show ?case by (simp add: subtree_strings_simps)
next
  case (Comment s)
  then show ?case by (simp add: subtree_strings_simps)
next
  case (Tag n a cs)
  have "concat (map (\<lambda>c. subtree_strings (decompose_all script_or_style c))
          (filter (\<lambda>c. \<not> script_or_style c) cs)) = concat (map visible_text cs)"
    using Tag.IH script_or_style_hidden by (intro concat_map_filter_hidden) auto
  with Tag.prems show ?case
    by (simp add: subtree_strings_simps all_strings_Tag comp_def)
qed

lemma all_strings_decompose:
  "all_strings (decompose_all script_or_style soup) = visible_strings soup"
proof (cases soup)
  case (Tag n a cs)
  have "concat (map (\<lambda>c. subtree_strings (decompose_all script_or_style c))
          (filter (\<lambda>c. \<not> script_or_style c) cs)) = concat (map visible_text cs)"
    using subtree_strings_decompose script_or_style_hidden
    by (intro concat_map_filter_hidden) auto
  with Tag show ?thesis by (simp add: all_strings_Tag comp_def)
qed (simp_all add: all_strings_def List.map_filter_def)

lemma all_strings_suffix: "suffix (all_strings d) (subtree_strings d)"
  by (cases d) (simp_all add: subtree_strings_simps all_strings_def List.map_filter_def)

lemma sublist_concat_member:
  "c \<in> set cs \<Longrightarrow> sublist (f c) (concat (map f cs))"
proof -
  assume "c \<in> set cs"
  then obtain l r where "cs = l @ c # r" by (meson split_list)
  then have "concat (map f cs) = concat (map f l) @ f c @ concat (map f r)" by simp
  then show ?thesis by (metis sublist_appendI)
qed

lemma descendant_strings_sublist:
  "d \<in> set (descendants t) \<Longrightarrow> sublist (subtree_strings d) (all_strings t)"
proof (induction t arbitrary: d)
  case (NavigableString s)
  then show ?case by simp
next
  case (Comment s)
  then show ?case by simp
next
  case (Tag n a cs)
  from Tag.prems obtain c where c: "c \<in> set cs" and d: "d = c \<or> d \<in> set (descendants c)"
    by auto
  have top: "sublist (subtree_strings c) (all_strings (Tag n a cs))"
    using sublist_concat_member [OF c, of subtree_strings] by (simp add: all_strings_Tag)
  from d show ?case
  proof
    assume "d = c"
    with top show ?thesis by simp
  next
    assume "d \<in> set (descendants c)"
    with Tag.IH [OF c] have "sublist (subtree_strings d) (all_strings c)" by simp
    moreover have "sublist (all_strings c) (subtree_strings c)"
      using all_strings_suffix by (rule suffix_imp_sublist)
    ultimately show ?thesis
      using top by (meson sublist_order.order.trans)
  qed
qed

lemma bs_find_member: "bs_find p soup = Some m \<Longrightarrow> m \<in> set (descendants soup)"
  by (auto simp add: bs_find_first)

lemma select_main_content_member:
  "select_main_content soup = soup \<or> select_main_content soup \<in> set (descendants soup)"
  by (auto simp add: select_main_content_cases split: option.split dest: bs_find_member)

lemma region_strings_sublist:
  "sublist (all_strings (select_main_content soup)) (all_strings soup)"
proof -
  from select_main_content_member [of soup] show ?thesis
  proof
    assume "select_main_content soup = soup"
    then show ?thesis by simp
  next
    assume "select_main_content soup \<in> set (descendants soup)"
    then have "sublist (subtree_strings (select_main_content soup)) (all_strings soup)"
      by (rule descendant_strings_sublist)
    moreover have "sublist (all_strings (select_main_content soup))
        (subtree_strings (select_main_content soup))"
      using all_strings_suffix by (rule suffix_imp_sublist)
    ultimately show ?thesis by (meson sublist_order.order.trans)
  qed
qed

lemma no_script_or_style_left:
  "list_all (\<lambda>d. \<not> script_or_style d) (descendants (decompose_all script_or_style t))"
proof (induction t)
  case (Tag n a cs)
  then show ?case
    by (auto simp add: list_all_iff script_or_style_decompose)
qed simp_all

section \<open>The extracted text\<close>

lemma extract_text_from_html_text:
  "fst (extract_text_from_html w h u) =
     normalize_whitespace (concat (all_strings
       (select_main_content (decompose_all script_or_style (html_parser w h)))))"
  by (simp add: extract_text_from_html_def extract_text_from_soup_def get_text_def Let_def)

lemma extracted_text_normalized: "normalized (fst (extract_text_from_html w h u))"
  by (simp add: extract_text_from_html_text normalize_whitespace_normalized)

lemma fetch_html_content:
  "fetch_url_content w u True f t = Inr r \<Longrightarrow>
   py_contains (ustr ''text/html'') (content_type r) \<Longrightarrow>
   \<exists>h. content r = fst (extract_text_from_html w h u)"
  apply (auto simp add: fetch_url_content_def fetch_try_def process_content_def Let_def
      split: sum.splits prod.splits if_splits)
   apply (metis fst_conv)+
  done

text \<open>
  C5. For every HTML text and every tree the builder makes of it: the text nodes the
  routine reads (those of the chosen region of the tree without its script and style
  elements) are a contiguous part of the document's text nodes outside script and style
  elements, and no script or style element is left in the tree that is read; the content
  returned is the clean-up of their concatenation; it contains no two consecutive
  spaces; and the clean-up is idempotent. So for every response of the fetch handler
  with \<open>extract_text\<close> true whose content type contains \<^verbatim>\<open>text/html\<close>, the content
  has no two consecutive spaces and is a fixed point of the clean-up.
\<close>

theorem extraction_text_clean:
  "sublist (all_strings (select_main_content (decompose_all script_or_style (html_parser w h))))
     (visible_strings (html_parser w h)) \<and>
   list_all (\<lambda>d. \<not> script_or_style d)
     (descendants (decompose_all script_or_style (html_parser w h))) \<and>
   fst (extract_text_from_html w h u) =
     normalize_whitespace (concat (all_strings
       (select_main_content (decompose_all script_or_style (html_parser w h))))) \<and>
   \<not> py_contains (ustr ''  '') (fst (extract_text_from_html w h u)) \<and>
   normalize_whitespace (normalize_whitespace s) = normalize_whitespace s \<and>
   (fetch_url_content w u True f t = Inr r \<and> py_contains (ustr ''text/html'') (content_type r) \<longrightarrow>
      \<not> py_contains (ustr ''  '') (content r) \<and> normalize_whitespace (content r) = content r)"
proof -
  have a: "sublist (all_strings (select_main_content (decompose_all script_or_style (html_parser w h))))
     (visible_strings (html_parser w h))"
    using region_strings_sublist [of "decompose_all script_or_style (html_parser w h)"]
    by (simp add: all_strings_decompose)
  have b: "\<not> py_contains (ustr ''  '') (fst (extract_text_from_html w h u))"
    using extracted_text_normalized [of w h u] by (simp add: normalized_def)
  have c: "fetch_url_content w u True f t = Inr r \<and> py_contains (ustr ''text/html'') (content_type r) \<longrightarrow>
      \<not> py_contains (ustr ''  '') (content r) \<and> normalize_whitespace (content r) = content r"
  proof
    assume "fetch_url_content w u True f t = Inr r \<and> py_contains (ustr ''text/html'') (content_type r)"
    then obtain h' where "content r = fst (extract_text_from_html w h' u)"
      using fetch_html_content by blast
    then have "normalized (content r)" by (simp add: extracted_text_normalized)
    then show "\<not> py_contains (ustr ''  '') (content r) \<and> normalize_whitespace (content r) = content r"
      by (simp add: normalized_def normalize_whitespace_fixed)
  qed
  from a b c show ?thesis
    by (simp add: no_script_or_style_left extract_text_from_html_text normalize_whitespace_idem)
qed

lemmas extract_eval = stub_world_def html_world_def typed_response_def doc_script_def ustr_def
  extract_text_from_html_def extract_text_from_soup_def script_or_style_def
  select_main_content_def py_or_def bs_find_def bs_find_all_def content_div_def
  class_pattern_def get_text_def all_strings_def List.map_filter_def normalize_whitespace_def
  py_splitlines_def py_split_def py_strip_def py_split_ws_def is_whitespace_def is_linebreak_def
  extract_title_def extract_metadata_def set_from_meta_def meta_named_def og_meta_def

theorem extraction_text_clean_witness:
  "visible_strings doc_script = [ustr ''T'', ustr ''  Hello '', ustr ''World  ''] \<and>
   all_strings (select_main_content (decompose_all script_or_style doc_script)) =
     [ustr ''  Hello '', ustr ''World  ''] \<and>
   extract_text_from_html (html_world doc_script (Inl (Timeout []))) [] [] =
     (ustr ''Hello World'', Some (ustr ''T''), []) \<and>
   normalize_whitespace (ustr ''Hello World'') = ustr ''Hello World'' \<and>
   fetch_url_content
      (html_world doc_script (Inr (typed_response ''text/html; charset=utf-8'' [[60, 104, 116, 109, 108, 62]])))
      (ustr ''http://example.invalid/'') True True 30 =
     Inr \<lparr> url = ustr ''http://example.invalid/'', title = Some (ustr ''T''),
           content = ustr ''Hello World'', content_type = ustr ''text/html; charset=utf-8'',
           status_code = 200, word_count = 2, metadata = [] \<rparr>"
  using extraction_text_clean [of "html_world doc_script (Inl (Timeout []))" "[]" "[]"
      "ustr ''Hello World''" True 30 undefined]
    extraction_text_clean [of
      "html_world doc_script (Inr (typed_response ''text/html; charset=utf-8'' [[60, 104, 116, 109, 108, 62]]))"
      "[]" "ustr ''http://example.invalid/''" "[]" True 30
      "\<lparr> url = ustr ''http://example.invalid/'', title = Some (ustr ''T''),
           content = ustr ''Hello World'', content_type = ustr ''text/html; charset=utf-8'',
           status_code = 200, word_count = 2, metadata = [] \<rparr>"]
  by (simp add: extract_eval fetch_url_content_def fetch_try_def raise_for_status_def
      max_size_def decode_content_def decode_utf8_def process_content_def py_lower_def
      lower_char_def)

end
